theory Spec2Isabelle
  imports Complex_Main "HOL-Library.Finite_Map"
begin

section \<open>ELECTRA model composition (modeling_tf_electra.py)\<close>

text \<open>
  The module composes an embedding layer, an optional projection, an encoder and task
  heads. Every raise of the source is a value of \<open>error\<close>; a function that can raise
  returns \<open>error + 'a\<close> with \<open>Inl\<close> the error.
\<close>

datatype error =
    AssertionError string
  | ValueError string
  | NotImplementedError
  | IndexError
  | KeyError string
  | InvalidArgumentError

subsection \<open>Tensors and the tensor primitives the module calls\<close>

text \<open>
  A tensor is its shape and its elements in row-major order, as the framework stores it.
  The element type is \<open>real\<close>: the integer tensors of the module (ids, binary masks,
  \<open>tf.fill(shape, 1)\<close>) hold small integers, which the cast to float32 keeps exactly.
\<close>

datatype tensor = Tensor (shape: "nat list") (data: "real list")

definition shape_list :: "tensor \<Rightarrow> nat list" where
  "shape_list t = shape t"

definition tf_fill :: "nat list \<Rightarrow> real \<Rightarrow> tensor" where
  "tf_fill dims v = Tensor dims (replicate (prod_list dims) v)"

definition tf_cast_float32 :: "tensor \<Rightarrow> tensor" where
  "tf_cast_float32 t = t"

text \<open>
  \<open>t[:, tf.newaxis, tf.newaxis, :]\<close>: two axes of size 1 after the first axis. The two
  slices need a tensor of rank 2 at least; the elements and their order are unchanged.
\<close>

definition newaxis_1_2 :: "tensor \<Rightarrow> error + tensor" where
  "newaxis_1_2 t =
     (case shape t of
        d0 # d1 # rest \<Rightarrow> Inr (Tensor (d0 # 1 # 1 # d1 # rest) (data t))
      | _ \<Rightarrow> Inl InvalidArgumentError)"

text \<open>\<open>tf.squeeze(t)\<close> with no axis removes every axis of size 1.\<close>

definition tf_squeeze :: "tensor \<Rightarrow> tensor" where
  "tf_squeeze t = Tensor (filter (\<lambda>d. d \<noteq> 1) (shape t)) (data t)"

text \<open>Reading a tensor at a multi-index (row-major offset).\<close>

fun flat_index :: "nat list \<Rightarrow> nat list \<Rightarrow> nat" where
  "flat_index (d # ds) (i # is) = i * prod_list ds + flat_index ds is"
| "flat_index _ _ = 0"

definition tensor_at :: "tensor \<Rightarrow> nat list \<Rightarrow> real" where
  "tensor_at t idx = data t ! flat_index (shape t) idx"

subsection \<open>Configuration\<close>

record electra_config =
  vocab_size :: nat
  embedding_size :: nat
  hidden_size :: nat
  num_hidden_layers :: nat
  hidden_act :: string
  layer_norm_eps :: real
  hidden_dropout_prob :: real
  max_position_embeddings :: nat
  type_vocab_size :: nat
  num_labels :: nat

subsection \<open>TFElectraPreTrainedModel\<close>

definition get_extended_attention_mask :: "tensor option \<Rightarrow> nat list \<Rightarrow> error + tensor" where
  "get_extended_attention_mask attention_mask input_shape =
     (let attention_mask = (case attention_mask of None \<Rightarrow> tf_fill input_shape 1 | Some m \<Rightarrow> m)
      in case newaxis_1_2 attention_mask of
           Inl e \<Rightarrow> Inl e
         | Inr extended_attention_mask \<Rightarrow>
             (let extended_attention_mask = tf_cast_float32 extended_attention_mask
              in Inr (Tensor (shape extended_attention_mask)
                        (map (\<lambda>x. (1 - x) * (- 10000)) (data extended_attention_mask)))))"

definition get_head_mask :: "electra_config \<Rightarrow> tensor option \<Rightarrow> error + tensor option list" where
  "get_head_mask config head_mask =
     (case head_mask of
        Some _ \<Rightarrow> Inl NotImplementedError
      | None \<Rightarrow> Inr (replicate (num_hidden_layers config) None))"

subsection \<open>Layers of the framework\<close>

text \<open>
  \<open>tf.keras.layers.Dense(units)\<close>: \<open>y = x . kernel + bias\<close> along the last axis, for
  an input of rank 2 at least. The weights are indexed by position.
\<close>

record dense_layer =
  units :: nat
  kernel :: "nat \<Rightarrow> nat \<Rightarrow> real"
  bias :: "nat \<Rightarrow> real"

definition Dense :: "nat \<Rightarrow> (nat \<Rightarrow> nat \<Rightarrow> real) \<Rightarrow> (nat \<Rightarrow> real) \<Rightarrow> dense_layer" where
  "Dense n w b = \<lparr>units = n, kernel = w, bias = b\<rparr>"

text \<open>Row \<open>k\<close> of a tensor whose last axis has size \<open>d\<close>.\<close>

definition row :: "nat \<Rightarrow> real list \<Rightarrow> nat \<Rightarrow> real list" where
  "row d xs k = take d (drop (k * d) xs)"

definition dense_row :: "dense_layer \<Rightarrow> real list \<Rightarrow> real list" where
  "dense_row L r =
     map (\<lambda>j. sum_list (map (\<lambda>i. r ! i * kernel L i j) [0..<length r]) + bias L j) [0..<units L]"

definition dense_call :: "dense_layer \<Rightarrow> tensor \<Rightarrow> error + tensor" where
  "dense_call L x =
     (if length (shape x) < 2 then Inl (ValueError ''expected min_ndim=2'')
      else Inr (Tensor (butlast (shape x) @ [units L])
                  (concat (map (\<lambda>k. dense_row L (row (last (shape x)) (data x) k))
                             [0..<prod_list (butlast (shape x))]))))"

text \<open>An activation function is applied to every element.\<close>

definition tensor_map :: "(real \<Rightarrow> real) \<Rightarrow> tensor \<Rightarrow> tensor" where
  "tensor_map f t = Tensor (shape t) (map f (data t))"

text \<open>
  \<open>tf.keras.layers.LayerNormalization(epsilon)\<close>: every row along the last axis is
  centred, divided by the square root of its variance plus epsilon, scaled by gamma and
  shifted by beta.
\<close>

record layer_norm =
  epsilon :: real
  gamma :: "nat \<Rightarrow> real"
  beta :: "nat \<Rightarrow> real"

definition LayerNormalization :: "real \<Rightarrow> (nat \<Rightarrow> real) \<Rightarrow> (nat \<Rightarrow> real) \<Rightarrow> layer_norm" where
  "LayerNormalization eps g b = \<lparr>epsilon = eps, gamma = g, beta = b\<rparr>"

definition mean :: "real list \<Rightarrow> real" where
  "mean r = sum_list r / real (length r)"

definition layer_norm_row :: "layer_norm \<Rightarrow> real list \<Rightarrow> real list" where
  "layer_norm_row L r =
     (let m = mean r; v = mean (map (\<lambda>x. (x - m)\<^sup>2) r)
      in map (\<lambda>i. (r ! i - m) / sqrt (v + epsilon L) * gamma L i + beta L i) [0..<length r])"

definition layer_norm_call :: "layer_norm \<Rightarrow> tensor \<Rightarrow> error + tensor" where
  "layer_norm_call L x =
     (if shape x = [] then Inl (ValueError ''Invalid axis'')
      else Inr (Tensor (shape x)
                  (concat (map (\<lambda>k. layer_norm_row L (row (last (shape x)) (data x) k))
                             [0..<prod_list (butlast (shape x))]))))"

text \<open>
  \<open>hidden_states.shape[-1]\<close>: the size of the last axis; indexing the empty shape of a
  scalar raises.
\<close>

definition last_dim :: "tensor \<Rightarrow> error + nat" where
  "last_dim t = (case shape t of [] \<Rightarrow> Inl IndexError | _ \<Rightarrow> Inr (last (shape t)))"

subsection \<open>TFElectraModel\<close>

text \<open>The keyword arguments of \<open>call\<close>, and the six canonical fields it normalises to.\<close>

record keyword_args =
  attention_mask :: "tensor option"
  token_type_ids :: "tensor option"
  position_ids :: "tensor option"
  head_mask :: "tensor option"
  inputs_embeds :: "tensor option"

record canonical_inputs = keyword_args +
  input_ids :: "tensor option"

text \<open>The first argument: a tuple or list, a dict, or anything else (a tensor or None).\<close>

datatype inputs =
    Positional "tensor option list"
  | Mapping "(string, tensor option) fmap"
  | Bare "tensor option"

definition dict_get :: "(string, tensor option) fmap \<Rightarrow> string \<Rightarrow> tensor option \<Rightarrow> tensor option" where
  "dict_get d k dflt = (case fmlookup d k of None \<Rightarrow> dflt | Some v \<Rightarrow> v)"

definition dict_len :: "(string, tensor option) fmap \<Rightarrow> nat" where
  "dict_len d = fcard (fmdom d)"

definition too_many_inputs :: error where
  "too_many_inputs = AssertionError ''Too many inputs.''"

definition specify_only_one :: error where
  "specify_only_one = ValueError ''You cannot specify both input_ids and inputs_embeds at the same time''"

definition must_specify_one :: error where
  "must_specify_one = ValueError ''You have to specify either input_ids or inputs_embeds''"

text \<open>
  Lines 162-179 of \<open>call\<close>: the three forms of \<open>inputs\<close>. A failing \<open>assert\<close>
  raises AssertionError.
\<close>

definition normalize_inputs :: "inputs \<Rightarrow> keyword_args \<Rightarrow> error + canonical_inputs" where
  "normalize_inputs inputs kw =
     (case inputs of
        Positional xs \<Rightarrow>
          (case xs of
             [] \<Rightarrow> Inl IndexError
           | x0 # _ \<Rightarrow>
               (let n = length xs;
                    r = \<lparr>attention_mask = (if n > 1 then xs ! 1 else attention_mask kw),
                         token_type_ids = (if n > 2 then xs ! 2 else token_type_ids kw),
                         position_ids = (if n > 3 then xs ! 3 else position_ids kw),
                         head_mask = (if n > 4 then xs ! 4 else head_mask kw),
                         inputs_embeds = (if n > 5 then xs ! 5 else inputs_embeds kw),
                         input_ids = x0\<rparr>
                in if n \<le> 6 then Inr r else Inl too_many_inputs))
      | Mapping d \<Rightarrow>
          (let r = \<lparr>attention_mask = dict_get d ''attention_mask'' (attention_mask kw),
                    token_type_ids = dict_get d ''token_type_ids'' (token_type_ids kw),
                    position_ids = dict_get d ''position_ids'' (position_ids kw),
                    head_mask = dict_get d ''head_mask'' (head_mask kw),
                    inputs_embeds = dict_get d ''inputs_embeds'' (inputs_embeds kw),
                    input_ids = dict_get d ''input_ids'' None\<rparr>
           in if dict_len d \<le> 6 then Inr r else Inl too_many_inputs)
      | Bare x \<Rightarrow>
          Inr \<lparr>attention_mask = attention_mask kw, token_type_ids = token_type_ids kw,
               position_ids = position_ids kw, head_mask = head_mask kw,
               inputs_embeds = inputs_embeds kw, input_ids = x\<rparr>)"

text \<open>Lines 181-188: exactly one of \<open>input_ids\<close> and \<open>inputs_embeds\<close> gives the input shape.\<close>

definition input_shape_of :: "canonical_inputs \<Rightarrow> error + nat list" where
  "input_shape_of f =
     (case (input_ids f, inputs_embeds f) of
        (Some _, Some _) \<Rightarrow> Inl specify_only_one
      | (Some ids, None) \<Rightarrow> Inr (shape_list ids)
      | (None, Some emb) \<Rightarrow> Inr (butlast (shape_list emb))
      | (None, None) \<Rightarrow> Inl must_specify_one)"

text \<open>
  The model instance. The embedding layer (TFElectraEmbeddings over TFBertEmbeddings) and
  the encoder (TFBertEncoder) come from a sibling module: they are the functions the
  instance holds. The embedding layer takes
  \<open>[input_ids, position_ids, token_type_ids, inputs_embeds]\<close> and \<open>training\<close>; the encoder
  takes the hidden states, the additive attention bias, the head mask and \<open>training\<close> and
  returns its output tuple.
\<close>

record electra_model =
  config :: electra_config
  embeddings :: "tensor option \<Rightarrow> tensor option \<Rightarrow> tensor option \<Rightarrow> tensor option \<Rightarrow> bool \<Rightarrow> tensor"
  embeddings_project :: dense_layer
  encoder :: "tensor \<Rightarrow> tensor \<Rightarrow> tensor option list \<Rightarrow> bool \<Rightarrow> tensor list"

definition TFElectraModel_init ::
  "electra_config \<Rightarrow> (tensor option \<Rightarrow> tensor option \<Rightarrow> tensor option \<Rightarrow> tensor option \<Rightarrow> bool \<Rightarrow> tensor)
     \<Rightarrow> (nat \<Rightarrow> nat \<Rightarrow> real) \<Rightarrow> (nat \<Rightarrow> real)
     \<Rightarrow> (tensor \<Rightarrow> tensor \<Rightarrow> tensor option list \<Rightarrow> bool \<Rightarrow> tensor list) \<Rightarrow> electra_model" where
  "TFElectraModel_init cfg emb w b enc =
     \<lparr>config = cfg, embeddings = emb, embeddings_project = Dense (hidden_size cfg) w b,
      encoder = enc\<rparr>"

text \<open>Lines 198-201: the embedding output, projected when its last axis is not the hidden width.\<close>

definition embed_and_project :: "electra_model \<Rightarrow> canonical_inputs \<Rightarrow> tensor option \<Rightarrow> bool \<Rightarrow> error + tensor" where
  "embed_and_project self f tt training =
     (let hidden_states = embeddings self (input_ids f) (position_ids f) tt
                            (inputs_embeds f) training
      in case last_dim hidden_states of
           Inl e \<Rightarrow> Inl e
         | Inr w \<Rightarrow>
             if w \<noteq> hidden_size (config self)
             then dense_call (embeddings_project self) hidden_states
             else Inr hidden_states)"

text \<open>Lines 181-205.\<close>

definition call_normalized :: "electra_model \<Rightarrow> canonical_inputs \<Rightarrow> bool \<Rightarrow> error + tensor list" where
  "call_normalized self f training =
     (case input_shape_of f of
        Inl e \<Rightarrow> Inl e
      | Inr input_shape \<Rightarrow>
          (let attention_mask' =
                 (case attention_mask f of None \<Rightarrow> tf_fill input_shape 1 | Some m \<Rightarrow> m);
               token_type_ids' =
                 (case token_type_ids f of None \<Rightarrow> tf_fill input_shape 0 | Some t \<Rightarrow> t)
           in case get_extended_attention_mask (Some attention_mask') input_shape of
                Inl e \<Rightarrow> Inl e
              | Inr extended_attention_mask \<Rightarrow>
                  (case get_head_mask (config self) (head_mask f) of
                     Inl e \<Rightarrow> Inl e
                   | Inr head_mask' \<Rightarrow>
                       (case embed_and_project self f (Some token_type_ids') training of
                          Inl e \<Rightarrow> Inl e
                        | Inr hidden_states \<Rightarrow>
                            Inr (encoder self hidden_states extended_attention_mask head_mask'
                                   training)))))"

definition call :: "electra_model \<Rightarrow> inputs \<Rightarrow> keyword_args \<Rightarrow> bool \<Rightarrow> error + tensor list" where
  "call self inputs kw training =
     (case normalize_inputs inputs kw of
        Inl e \<Rightarrow> Inl e
      | Inr f \<Rightarrow> call_normalized self f training)"

subsection \<open>TFElectraDiscriminatorPredictions and TFElectraGeneratorPredictions\<close>

text \<open>
  \<open>ACT2FN\<close>, the table of activation functions by name, comes from the sibling module;
  the functions that index it take it as their first argument. A missing key raises.
\<close>

type_synonym act_table = "string \<Rightarrow> (real \<Rightarrow> real) option"

record discriminator_predictions =
  dp_dense :: dense_layer
  dp_dense_prediction :: dense_layer
  dp_config :: electra_config

definition TFElectraDiscriminatorPredictions_init ::
  "electra_config \<Rightarrow> (nat \<Rightarrow> nat \<Rightarrow> real) \<Rightarrow> (nat \<Rightarrow> real) \<Rightarrow> (nat \<Rightarrow> nat \<Rightarrow> real) \<Rightarrow> (nat \<Rightarrow> real)
     \<Rightarrow> discriminator_predictions" where
  "TFElectraDiscriminatorPredictions_init cfg w1 b1 w2 b2 =
     \<lparr>dp_dense = Dense (hidden_size cfg) w1 b1, dp_dense_prediction = Dense 1 w2 b2,
      dp_config = cfg\<rparr>"

definition discriminator_forward ::
  "act_table \<Rightarrow> discriminator_predictions \<Rightarrow> tensor \<Rightarrow> tensor option \<Rightarrow> error + tensor" where
  "discriminator_forward ACT2FN self discriminator_hidden_states am =
     (case dense_call (dp_dense self) discriminator_hidden_states of
        Inl e \<Rightarrow> Inl e
      | Inr hidden_states \<Rightarrow>
          (case ACT2FN (hidden_act (dp_config self)) of
             None \<Rightarrow> Inl (KeyError (hidden_act (dp_config self)))
           | Some act \<Rightarrow>
               (case dense_call (dp_dense_prediction self) (tensor_map act hidden_states) of
                  Inl e \<Rightarrow> Inl e
                | Inr logits \<Rightarrow> Inr (tf_squeeze logits))))"

record generator_predictions =
  gp_LayerNorm :: layer_norm
  gp_dense :: dense_layer

definition TFElectraGeneratorPredictions_init ::
  "electra_config \<Rightarrow> (nat \<Rightarrow> real) \<Rightarrow> (nat \<Rightarrow> real) \<Rightarrow> (nat \<Rightarrow> nat \<Rightarrow> real) \<Rightarrow> (nat \<Rightarrow> real)
     \<Rightarrow> generator_predictions" where
  "TFElectraGeneratorPredictions_init cfg g be w b =
     \<lparr>gp_LayerNorm = LayerNormalization (layer_norm_eps cfg) g be,
      gp_dense = Dense (embedding_size cfg) w b\<rparr>"

definition generator_forward ::
  "act_table \<Rightarrow> generator_predictions \<Rightarrow> tensor \<Rightarrow> error + tensor" where
  "generator_forward ACT2FN self generator_hidden_states =
     (case dense_call (gp_dense self) generator_hidden_states of
        Inl e \<Rightarrow> Inl e
      | Inr hidden_states \<Rightarrow>
          (case ACT2FN ''gelu'' of
             None \<Rightarrow> Inl (KeyError ''gelu'')
           | Some act \<Rightarrow> layer_norm_call (gp_LayerNorm self) (tensor_map act hidden_states)))"

text \<open>
  Invoking a layer object runs \<open>call\<close> of its class. The two head classes define
  \<open>forward\<close> and no \<open>call\<close> (lines 59-87), so invoking them runs the
  \<open>call\<close> they inherit from \<open>tf.keras.layers.Layer\<close>, which returns its input;
  \<open>forward\<close> is not run.
\<close>

definition Layer_call :: "tensor \<Rightarrow> tensor" where
  "Layer_call inputs = inputs"

definition discriminator_predictions_call ::
  "discriminator_predictions \<Rightarrow> tensor \<Rightarrow> tensor option \<Rightarrow> tensor" where
  "discriminator_predictions_call self inputs am = Layer_call inputs"

definition generator_predictions_call :: "generator_predictions \<Rightarrow> tensor \<Rightarrow> bool \<Rightarrow> tensor" where
  "generator_predictions_call self inputs training = Layer_call inputs"

subsection \<open>TFElectraForMaskedLM\<close>

text \<open>
  Modelled from the spec: \<open>generator_lm_head\<close> is the input embedding layer of the sibling
  module, which is not in this file; called with \<open>mode="linear"\<close> it is the tied output
  projection, the token-embedding matrix of shape [vocab_size, embedding_width]
  transposed: \<open>logits[v] = sum over i of x[i] * word_embeddings[v][i]\<close>, with no bias.
\<close>

record input_embeddings =
  ie_vocab_size :: nat
  word_embeddings :: "nat \<Rightarrow> nat \<Rightarrow> real"

definition embeddings_linear :: "input_embeddings \<Rightarrow> tensor \<Rightarrow> error + tensor" where
  "embeddings_linear E x =
     dense_call (Dense (ie_vocab_size E) (\<lambda>i v. word_embeddings E v i) (\<lambda>v. 0)) x"

text \<open>
  \<open>generator_lm_head_bias\<close> is the weight of shape (vocab_size,) that \<open>build\<close> adds,
  initialised to zeros and trainable.
\<close>

record electra_for_masked_lm =
  mlm_vocab_size :: nat
  generator :: electra_model
  generator_predictions :: generator_predictions
  generator_lm_head :: input_embeddings
  generator_lm_head_bias :: "nat \<Rightarrow> real"

definition masked_lm_call ::
  "electra_for_masked_lm \<Rightarrow> inputs \<Rightarrow> keyword_args \<Rightarrow> bool \<Rightarrow> error + tensor list" where
  "masked_lm_call self inputs kw training =
     (case call (generator self) inputs kw training of
        Inl e \<Rightarrow> Inl e
      | Inr generator_hidden_states \<Rightarrow>
          (case generator_hidden_states of
             [] \<Rightarrow> Inl IndexError
           | generator_sequence_output # rest \<Rightarrow>
               (let prediction_scores =
                      generator_predictions_call (generator_predictions self)
                        generator_sequence_output training
                in case embeddings_linear (generator_lm_head self) prediction_scores of
                     Inl e \<Rightarrow> Inl e
                   | Inr prediction_scores' \<Rightarrow> Inr (prediction_scores' # rest))))"

text \<open>
  What the specification says the first output of the masked-LM model is: the Generator
  Head (its \<open>forward\<close>) on the sequence output, then the tied projection, plus the bias
  vector along the last axis.
\<close>

definition add_bias :: "(nat \<Rightarrow> real) \<Rightarrow> tensor \<Rightarrow> tensor" where
  "add_bias b t =
     Tensor (shape t) (map (\<lambda>k. data t ! k + b (k mod last (shape t))) [0..<length (data t)])"

definition spec_prediction_scores ::
  "act_table \<Rightarrow> electra_for_masked_lm \<Rightarrow> tensor \<Rightarrow> error + tensor" where
  "spec_prediction_scores ACT2FN self generator_sequence_output =
     (case generator_forward ACT2FN (generator_predictions self) generator_sequence_output of
        Inl e \<Rightarrow> Inl e
      | Inr head_output \<Rightarrow>
          (case embeddings_linear (generator_lm_head self) head_output of
             Inl e \<Rightarrow> Inl e
           | Inr t \<Rightarrow> Inr (add_bias (generator_lm_head_bias self) t)))"

subsection \<open>TFElectraForPreTraining\<close>

record electra_for_pretraining =
  pt_discriminator :: electra_model
  pt_discriminator_predictions :: discriminator_predictions

definition pretraining_call ::
  "electra_for_pretraining \<Rightarrow> inputs \<Rightarrow> keyword_args \<Rightarrow> bool \<Rightarrow> error + tensor list" where
  "pretraining_call self inputs kw training =
     (case call (pt_discriminator self) inputs kw training of
        Inl e \<Rightarrow> Inl e
      | Inr discriminator_hidden_states \<Rightarrow>
          (case discriminator_hidden_states of
             [] \<Rightarrow> Inl IndexError
           | discriminator_sequence_output # rest \<Rightarrow>
               (let logits =
                      discriminator_predictions_call (pt_discriminator_predictions self)
                        discriminator_sequence_output (attention_mask kw)
                in Inr (logits # rest))))"

subsection \<open>TFElectraForTokenClassification\<close>

text \<open>
  The dropout layer is the function the instance holds (the identity outside training).
\<close>

record electra_for_token_classification =
  tc_discriminator :: electra_model
  tc_dropout :: "tensor \<Rightarrow> tensor"
  tc_classifier :: dense_layer

definition token_classification_call ::
  "electra_for_token_classification \<Rightarrow> inputs \<Rightarrow> keyword_args \<Rightarrow> bool \<Rightarrow> error + tensor list" where
  "token_classification_call self inputs kw training =
     (case call (tc_discriminator self) inputs kw training of
        Inl e \<Rightarrow> Inl e
      | Inr discriminator_hidden_states \<Rightarrow>
          (case discriminator_hidden_states of
             [] \<Rightarrow> Inl IndexError
           | discriminator_sequence_output # rest \<Rightarrow>
               (case dense_call (tc_classifier self) (tc_dropout self discriminator_sequence_output) of
                  Inl e \<Rightarrow> Inl e
                | Inr logits \<Rightarrow> Inr (logits # rest))))"

text \<open>The six keys that \<open>call\<close> reads from a dict.\<close>

definition canonical_keys :: "string set" where
  "canonical_keys = {''input_ids'', ''attention_mask'', ''token_type_ids'', ''position_ids'',
     ''head_mask'', ''inputs_embeds''}"

subsection \<open>A small model instance\<close>

definition example_config :: electra_config where
  "example_config = \<lparr>vocab_size = 4, embedding_size = 2, hidden_size = 3, num_hidden_layers = 2,
     hidden_act = ''relu'', layer_norm_eps = 1, hidden_dropout_prob = 0,
     max_position_embeddings = 8, type_vocab_size = 2, num_labels = 2\<rparr>"

text \<open>
  An embedding layer of width 2 with all-zero tables (precomputed embeddings pass through),
  and an encoder that returns its hidden states as the sequence output and the attention
  bias it was given as one more element of its tuple.
\<close>

definition example_embeddings ::
  "tensor option \<Rightarrow> tensor option \<Rightarrow> tensor option \<Rightarrow> tensor option \<Rightarrow> bool \<Rightarrow> tensor" where
  "example_embeddings ids pos tt emb training =
     (case emb of Some e \<Rightarrow> e
      | None \<Rightarrow> (case ids of Some t \<Rightarrow> tf_fill (shape t @ [2]) 0 | None \<Rightarrow> tf_fill [] 0))"

definition example_encoder :: "tensor \<Rightarrow> tensor \<Rightarrow> tensor option list \<Rightarrow> bool \<Rightarrow> tensor list" where
  "example_encoder h m hm training = [h, m]"

definition example_model :: electra_model where
  "example_model =
     TFElectraModel_init example_config example_embeddings (\<lambda>i j. 1) (\<lambda>j. 0) example_encoder"

text \<open>
  A table with two activations; the tanh form of gelu stands under the name \<open>gelu\<close>.
\<close>

definition gelu_tanh :: "real \<Rightarrow> real" where
  "gelu_tanh x = x / 2 * (1 + tanh (sqrt (2 / pi) * (x + 0.044715 * x ^ 3)))"

definition example_ACT2FN :: act_table where
  "example_ACT2FN k =
     (if k = ''gelu'' then Some gelu_tanh
      else if k = ''relu'' then Some (\<lambda>x. max 0 x) else None)"

definition example_discriminator_predictions :: discriminator_predictions where
  "example_discriminator_predictions =
     TFElectraDiscriminatorPredictions_init example_config (\<lambda>i j. 1) (\<lambda>j. 0) (\<lambda>i j. 1) (\<lambda>j. 0)"

text \<open>
  A table whose two entries are easy to tell apart on small integers: doubling stands
  under the name \<open>gelu\<close>, relu under \<open>relu\<close>.
\<close>

definition probe_ACT2FN :: act_table where
  "probe_ACT2FN k =
     (if k = ''gelu'' then Some (\<lambda>x. 2 * x)
      else if k = ''relu'' then Some (\<lambda>x. max 0 x) else None)"

subsection \<open>An instance with equal embedding and hidden width\<close>

definition equal_width_config :: electra_config where
  "equal_width_config = \<lparr>vocab_size = 4, embedding_size = 2, hidden_size = 2,
     num_hidden_layers = 2, hidden_act = ''relu'', layer_norm_eps = 1, hidden_dropout_prob = 0,
     max_position_embeddings = 8, type_vocab_size = 2, num_labels = 2\<rparr>"

text \<open>
  An embedding layer of width 2 that gives token \<open>v\<close> the vector \<open>[v, v + 1]\<close>
  (precomputed embeddings pass through).
\<close>

definition token_table_embeddings ::
  "tensor option \<Rightarrow> tensor option \<Rightarrow> tensor option \<Rightarrow> tensor option \<Rightarrow> bool \<Rightarrow> tensor" where
  "token_table_embeddings ids pos tt emb training =
     (case emb of Some e \<Rightarrow> e
      | None \<Rightarrow>
          (case ids of
             Some t \<Rightarrow> Tensor (shape t @ [2]) (concat (map (\<lambda>v. [v, v + 1]) (data t)))
           | None \<Rightarrow> tf_fill [] 0))"

definition equal_width_model :: electra_model where
  "equal_width_model =
     TFElectraModel_init equal_width_config token_table_embeddings (\<lambda>i j. 1) (\<lambda>j. 0)
       example_encoder"

text \<open>
  A masked-LM model over a vocabulary of four tokens whose bias weight holds ones, as
  after loading trained weights; a pretraining model; a token-classification model with
  two labels.
\<close>

definition example_masked_lm :: electra_for_masked_lm where
  "example_masked_lm =
     \<lparr>mlm_vocab_size = 4, generator = equal_width_model,
      generator_predictions =
        TFElectraGeneratorPredictions_init equal_width_config (\<lambda>i. 1) (\<lambda>i. 1) (\<lambda>i j. 0) (\<lambda>j. 0),
      generator_lm_head = \<lparr>ie_vocab_size = 4, word_embeddings = (\<lambda>v i. real v + 1)\<rparr>,
      generator_lm_head_bias = (\<lambda>v. 1)\<rparr>"

definition example_pretraining :: electra_for_pretraining where
  "example_pretraining =
     \<lparr>pt_discriminator = equal_width_model,
      pt_discriminator_predictions =
        TFElectraDiscriminatorPredictions_init equal_width_config (\<lambda>i j. 1) (\<lambda>j. 0)
          (\<lambda>i j. 1) (\<lambda>j. 0)\<rparr>"

definition example_token_classification :: electra_for_token_classification where
  "example_token_classification =
     \<lparr>tc_discriminator = equal_width_model, tc_dropout = (\<lambda>t. t),
      tc_classifier = Dense (num_labels equal_width_config) (\<lambda>i j. 1) (\<lambda>j. 1)\<rparr>"

definition no_keywords :: keyword_args where
  "no_keywords = \<lparr>attention_mask = None, token_type_ids = None, position_ids = None,
     head_mask = None, inputs_embeds = None\<rparr>"

section \<open>Properties\<close>

lemma flat_index_2: "flat_index [b, s] [i, j] = i * s + j"
  by simp

lemma flat_index_4: "flat_index [b, 1, 1, s] [i, 0, 0, j] = i * s + j"
  by simp

lemma offset_in_range:
  fixes i j b s :: nat
  assumes "i < b" "j < s"
  shows "i * s + j < b * s"
proof -
  have "i * s + j < i * s + s" using assms by simp
  also have "\<dots> = Suc i * s" by simp
  also have "\<dots> \<le> b * s" using assms by (intro mult_le_mono1) simp
  finally show ?thesis .
qed

text \<open>
  C2. A mask of shape [batch, sequence] gives a bias of shape [batch, 1, 1, sequence];
  where the mask is 1 the bias is 0, where the mask is 0 the bias is -10000; the all-ones
  mask (given, or the default for an absent mask) gives the all-zero bias.
\<close>

theorem extended_attention_mask_bias:
  assumes "shape m = [b, s]" and "length (data m) = b * s"
  shows "\<exists>r. get_extended_attention_mask (Some m) input_shape = Inr r \<and>
           shape r = [b, 1, 1, s] \<and> length (data r) = b * s \<and>
           (\<forall>i<b. \<forall>j<s.
              (tensor_at m [i, j] = 1 \<longrightarrow> tensor_at r [i, 0, 0, j] = 0) \<and>
              (tensor_at m [i, j] = 0 \<longrightarrow> tensor_at r [i, 0, 0, j] = - 10000)) \<and>
           (m = tf_fill [b, s] 1 \<longrightarrow> r = tf_fill [b, 1, 1, s] 0) \<and>
           get_extended_attention_mask None [b, s] = Inr (tf_fill [b, 1, 1, s] 0)"
proof -
  define r where "r = Tensor [b, 1, 1, s] (map (\<lambda>x. (1 - x) * (- 10000)) (data m))"
  have res: "get_extended_attention_mask (Some m) input_shape = Inr r"
    using assms(1) by (simp add: get_extended_attention_mask_def newaxis_1_2_def tf_cast_float32_def r_def)
  have pos: "tensor_at r [i, 0, 0, j] = (1 - tensor_at m [i, j]) * (- 10000)"
    if "i < b" "j < s" for i j
  proof -
    have "i * s + j < length (data m)"
      using offset_in_range [OF that] assms(2) by simp
    then show ?thesis
      using assms(1) by (simp add: tensor_at_def r_def)
  qed
  have ones: "r = tf_fill [b, 1, 1, s] 0" if "m = tf_fill [b, s] 1"
    using that by (simp add: r_def tf_fill_def)
  have dflt: "get_extended_attention_mask None [b, s] = Inr (tf_fill [b, 1, 1, s] 0)"
    by (simp add: get_extended_attention_mask_def newaxis_1_2_def tf_cast_float32_def tf_fill_def)
  have "shape r = [b, 1, 1, s]" "length (data r) = b * s"
    using assms(2) by (simp_all add: r_def)
  with res pos ones dflt show ?thesis by simp
qed

theorem extended_attention_mask_bias_witness:
  "shape (Tensor [1, 2] [1, 0]) = [1, 2] \<and> length (data (Tensor [1, 2] [1, 0])) = 1 * 2 \<and>
   get_extended_attention_mask (Some (Tensor [1, 2] [1, 0])) [1, 2]
     = Inr (Tensor [1, 1, 1, 2] [0, - 10000]) \<and>
   tensor_at (Tensor [1, 1, 1, 2] [0, - 10000]) [0, 0, 0, 1] = - 10000 \<and>
   get_extended_attention_mask None [1, 2] = Inr (Tensor [1, 1, 1, 2] [0, 0])"
  using extended_attention_mask_bias [of "Tensor [1, 2] [1, 0]" 1 2 "[1, 2]"]
  by (simp add: get_extended_attention_mask_def newaxis_1_2_def tf_cast_float32_def
      tf_fill_def tensor_at_def numeral_2_eq_2)

subsection \<open>Input normalisation of the Base Model\<close>

lemma normalize_inputs_accepts:
  assumes "case inputs of Positional xs \<Rightarrow> xs \<noteq> [] \<and> length xs \<le> 6
             | Mapping d \<Rightarrow> dict_len d \<le> 6 | Bare x \<Rightarrow> True"
  shows "\<exists>f. normalize_inputs inputs kw = Inr f"
  using assms
  by (cases inputs) (auto simp: normalize_inputs_def Let_def split: list.splits)

lemma error_strings_distinct:
  "specify_only_one \<noteq> must_specify_one"
  "ValueError ''expected min_ndim=2'' \<noteq> specify_only_one"
  "ValueError ''expected min_ndim=2'' \<noteq> must_specify_one"
  "too_many_inputs \<noteq> specify_only_one"
  "too_many_inputs \<noteq> must_specify_one"
  by (simp_all add: specify_only_one_def must_specify_one_def too_many_inputs_def)

lemma dense_call_error: "dense_call L x = Inl e \<Longrightarrow> e = ValueError ''expected min_ndim=2''"
  by (auto simp: dense_call_def split: if_splits)

lemma embed_and_project_error:
  "embed_and_project self f tt training = Inl e \<Longrightarrow>
     e = IndexError \<or> e = ValueError ''expected min_ndim=2''"
  by (auto simp: embed_and_project_def Let_def last_dim_def
      split: list.splits if_splits dest: dense_call_error)

lemma get_extended_attention_mask_error:
  "get_extended_attention_mask m input_shape = Inl e \<Longrightarrow> e = InvalidArgumentError"
  by (auto simp: get_extended_attention_mask_def newaxis_1_2_def Let_def
      split: option.splits list.splits sum.splits)

lemma get_head_mask_error: "get_head_mask cfg hm = Inl e \<Longrightarrow> e = NotImplementedError"
  by (auto simp: get_head_mask_def split: option.splits)

lemma call_normalized_both:
  "input_ids f \<noteq> None \<Longrightarrow> inputs_embeds f \<noteq> None \<Longrightarrow>
     call_normalized self f training = Inl specify_only_one"
  by (auto simp: call_normalized_def input_shape_of_def)

lemma call_normalized_neither:
  "input_ids f = None \<Longrightarrow> inputs_embeds f = None \<Longrightarrow>
     call_normalized self f training = Inl must_specify_one"
  by (auto simp: call_normalized_def input_shape_of_def)

lemma call_normalized_one:
  assumes "(input_ids f = None) \<noteq> (inputs_embeds f = None)"
  shows "call_normalized self f training \<noteq> Inl specify_only_one \<and>
         call_normalized self f training \<noteq> Inl must_specify_one"
proof -
  obtain s where s: "input_shape_of f = Inr s"
    using assms by (auto simp: input_shape_of_def split: option.splits)
  have "e \<noteq> specify_only_one \<and> e \<noteq> must_specify_one"
    if "call_normalized self f training = Inl e" for e
  proof -
    from that s have "e = InvalidArgumentError \<or> e = NotImplementedError \<or> e = IndexError
        \<or> e = ValueError ''expected min_ndim=2''"
      by (auto simp: call_normalized_def Let_def split: sum.splits
          dest: get_extended_attention_mask_error get_head_mask_error embed_and_project_error)
    then show ?thesis
      by (auto simp: specify_only_one_def must_specify_one_def)
  qed
  then show ?thesis by blast
qed

text \<open>
  C1 (as amended). When the input passes normalisation (anything but a tuple, list or
  dict; a tuple or list of one to six entries; a dict of at most six entries), both of
  input_ids and inputs_embeds present raises the "cannot specify both" error, neither
  present raises the "have to specify either" error, and exactly one present raises
  neither of the two.
\<close>

theorem call_ids_embeds_check:
  assumes "case inputs of Positional xs \<Rightarrow> xs \<noteq> [] \<and> length xs \<le> 6
             | Mapping d \<Rightarrow> dict_len d \<le> 6 | Bare x \<Rightarrow> True"
  shows "\<exists>f. normalize_inputs inputs kw = Inr f \<and>
           (input_ids f \<noteq> None \<and> inputs_embeds f \<noteq> None \<longrightarrow>
              call self inputs kw training = Inl specify_only_one) \<and>
           (input_ids f = None \<and> inputs_embeds f = None \<longrightarrow>
              call self inputs kw training = Inl must_specify_one) \<and>
           ((input_ids f = None) \<noteq> (inputs_embeds f = None) \<longrightarrow>
              call self inputs kw training \<noteq> Inl specify_only_one \<and>
              call self inputs kw training \<noteq> Inl must_specify_one)"
proof -
  obtain f where f: "normalize_inputs inputs kw = Inr f"
    using normalize_inputs_accepts [OF assms] by blast
  then have c: "call self inputs kw training = call_normalized self f training"
    by (simp add: call_def)
  have both: "input_ids f \<noteq> None \<and> inputs_embeds f \<noteq> None \<longrightarrow>
      call self inputs kw training = Inl specify_only_one"
    unfolding c using call_normalized_both [of f self training] by simp
  have neither: "input_ids f = None \<and> inputs_embeds f = None \<longrightarrow>
      call self inputs kw training = Inl must_specify_one"
    unfolding c using call_normalized_neither [of f self training] by simp
  have one: "(input_ids f = None) \<noteq> (inputs_embeds f = None) \<longrightarrow>
      call self inputs kw training \<noteq> Inl specify_only_one \<and>
      call self inputs kw training \<noteq> Inl must_specify_one"
    unfolding c using call_normalized_one [of f self training] by simp
  from f both neither one show ?thesis
    by (intro exI [of _ f] conjI)
qed

theorem call_ids_embeds_check_witness:
  "(case Positional [Some (Tensor [1, 2] [0, 1]), None, None, None, None,
                     Some (Tensor [1, 2, 3] [0, 0, 0, 0, 0, 0])] of
      Positional xs \<Rightarrow> xs \<noteq> [] \<and> length xs \<le> 6
    | Mapping d \<Rightarrow> dict_len d \<le> 6 | Bare x \<Rightarrow> True) \<and>
   call example_model
     (Positional [Some (Tensor [1, 2] [0, 1]), None, None, None, None,
                  Some (Tensor [1, 2, 3] [0, 0, 0, 0, 0, 0])])
     no_keywords False = Inl specify_only_one \<and>
   call example_model (Bare None) no_keywords False = Inl must_specify_one"
  using call_ids_embeds_check [where inputs = "Positional [Some (Tensor [1, 2] [0, 1]), None,
        None, None, None, Some (Tensor [1, 2, 3] [0, 0, 0, 0, 0, 0])]"
      and kw = no_keywords and self = example_model and training = False]
    call_ids_embeds_check [where inputs = "Bare None"
      and kw = no_keywords and self = example_model and training = False]
  by (simp add: normalize_inputs_def no_keywords_def)

text \<open>
  C1 as stated fails: a list of seven entries with both input_ids and inputs_embeds present
  raises the "Too many inputs." assertion, not the "cannot specify both" error.
\<close>

theorem call_seven_entries_both_present:
  "call example_model
     (Positional [Some (Tensor [1, 2] [0, 1]), None, None, None, None,
                  Some (Tensor [1, 2, 3] [0, 0, 0, 0, 0, 0]), None])
     no_keywords False = Inl (AssertionError ''Too many inputs.'') \<and>
   call example_model
     (Positional [Some (Tensor [1, 2] [0, 1]), None, None, None, None,
                  Some (Tensor [1, 2, 3] [0, 0, 0, 0, 0, 0]), None])
     no_keywords False
     \<noteq> Inl (ValueError ''You cannot specify both input_ids and inputs_embeds at the same time'')"
  by (simp add: call_def normalize_inputs_def too_many_inputs_def)

text \<open>
  C7. A tuple or list of more than six entries, and a dict of more than six entries,
  raise the "Too many inputs." assertion.
\<close>

theorem call_too_many_inputs:
  "(length xs > 6 \<longrightarrow>
      call self (Positional xs) kw training = Inl (AssertionError ''Too many inputs.'')) \<and>
   (dict_len d > 6 \<longrightarrow>
      call self (Mapping d) kw training = Inl (AssertionError ''Too many inputs.''))"
  by (auto simp: call_def normalize_inputs_def Let_def too_many_inputs_def split: list.splits)

theorem call_too_many_inputs_witness:
  "length [Some (Tensor [1, 2] [0, 1]), None, None, None, None, None, None] > 6 \<and>
   call example_model (Positional [Some (Tensor [1, 2] [0, 1]), None, None, None, None, None, None])
     no_keywords False = Inl (AssertionError ''Too many inputs.'') \<and>
   dict_len (fmap_of_list [(''input_ids'', Some (Tensor [1, 2] [0, 1])), (''a'', None),
      (''b'', None), (''c'', None), (''d'', None), (''e'', None), (''f'', None)]) > 6 \<and>
   call example_model
     (Mapping (fmap_of_list [(''input_ids'', Some (Tensor [1, 2] [0, 1])), (''a'', None),
        (''b'', None), (''c'', None), (''d'', None), (''e'', None), (''f'', None)]))
     no_keywords False = Inl (AssertionError ''Too many inputs.'')"
  using call_too_many_inputs [where xs = "[Some (Tensor [1, 2] [0, 1]), None, None, None, None,
        None, None]"
      and d = "fmap_of_list [(''input_ids'', Some (Tensor [1, 2] [0, 1])), (''a'', None),
        (''b'', None), (''c'', None), (''d'', None), (''e'', None), (''f'', None)]"
      and self = example_model and kw = no_keywords and training = False]
  by (simp add: dict_len_def fcard_finsert_if fcard_fempty)

lemma normalize_mapping_agree:
  assumes "dict_len d1 \<le> 6" "dict_len d2 \<le> 6"
    and "\<forall>k\<in>canonical_keys. fmlookup d1 k = fmlookup d2 k"
  shows "normalize_inputs (Mapping d1) kw = normalize_inputs (Mapping d2) kw"
  using assms by (simp add: normalize_inputs_def Let_def dict_get_def canonical_keys_def)

text \<open>
  C10 (as amended). Two dicts of at most six entries that agree on the six canonical keys
  give the same result, error included; a dict of at most six entries with none of the
  six keys, in a call that passes no inputs_embeds keyword argument, raises the "have to
  specify either" error.
\<close>

theorem call_mapping_reads_canonical_keys:
  "(dict_len d1 \<le> 6 \<and> dict_len d2 \<le> 6 \<and>
      (\<forall>k\<in>canonical_keys. fmlookup d1 k = fmlookup d2 k) \<longrightarrow>
      call self (Mapping d1) kw training = call self (Mapping d2) kw training) \<and>
   (dict_len d \<le> 6 \<and> (\<forall>k\<in>canonical_keys. fmlookup d k = None) \<and> inputs_embeds kw = None \<longrightarrow>
      call self (Mapping d) kw training = Inl must_specify_one)"
proof (intro conjI impI)
  assume "dict_len d1 \<le> 6 \<and> dict_len d2 \<le> 6 \<and>
    (\<forall>k\<in>canonical_keys. fmlookup d1 k = fmlookup d2 k)"
  then have "normalize_inputs (Mapping d1) kw = normalize_inputs (Mapping d2) kw"
    by (intro normalize_mapping_agree) simp_all
  then show "call self (Mapping d1) kw training = call self (Mapping d2) kw training"
    by (simp add: call_def)
next
  assume a: "dict_len d \<le> 6 \<and> (\<forall>k\<in>canonical_keys. fmlookup d k = None) \<and>
    inputs_embeds kw = None"
  then obtain f where f: "normalize_inputs (Mapping d) kw = Inr f"
    and "input_ids f = None" "inputs_embeds f = None"
    by (simp add: normalize_inputs_def Let_def dict_get_def canonical_keys_def)
  then show "call self (Mapping d) kw training = Inl must_specify_one"
    by (simp add: call_def call_normalized_neither)
qed

theorem call_mapping_reads_canonical_keys_witness:
  "dict_len (fmap_of_list [(''input_ids'', Some (Tensor [1, 2] [0, 1])), (''foo'', None)]) \<le> 6 \<and>
   dict_len (fmap_of_list [(''input_ids'', Some (Tensor [1, 2] [0, 1])),
      (''bar'', Some (Tensor [] [7]))]) \<le> 6 \<and>
   call example_model
     (Mapping (fmap_of_list [(''input_ids'', Some (Tensor [1, 2] [0, 1])), (''foo'', None)]))
     no_keywords False =
   call example_model
     (Mapping (fmap_of_list [(''input_ids'', Some (Tensor [1, 2] [0, 1])),
        (''bar'', Some (Tensor [] [7]))]))
     no_keywords False \<and>
   inputs_embeds no_keywords = None \<and>
   call example_model (Mapping (fmap_of_list [(''foo'', Some (Tensor [] [7]))])) no_keywords False
     = Inl must_specify_one"
  using call_mapping_reads_canonical_keys [where
      ?d1.0 = "fmap_of_list [(''input_ids'', Some (Tensor [1, 2] [0, 1])), (''foo'', None)]"
      and ?d2.0 = "fmap_of_list [(''input_ids'', Some (Tensor [1, 2] [0, 1])),
        (''bar'', Some (Tensor [] [7]))]"
      and d = "fmap_of_list [(''foo'', Some (Tensor [] [7]))]"
      and self = example_model and kw = no_keywords and training = False]
  by (simp add: dict_len_def fcard_finsert_if fcard_fempty canonical_keys_def no_keywords_def)

text \<open>
  C10 as stated fails: with an inputs_embeds keyword argument, a dict of unrecognised keys
  only does not raise the "have to specify either" error; the call goes on with the
  keyword's embeddings.
\<close>

theorem call_unrecognised_keys_with_keyword_embeds:
  "call example_model (Mapping (fmap_of_list [(''foo'', None)]))
     \<lparr>attention_mask = None, token_type_ids = None, position_ids = None, head_mask = None,
      inputs_embeds = Some (Tensor [1, 2, 3] [0, 0, 0, 0, 0, 0])\<rparr> False
     = Inr [Tensor [1, 2, 3] [0, 0, 0, 0, 0, 0], Tensor [1, 1, 1, 2] [0, 0]] \<and>
   call example_model (Mapping (fmap_of_list [(''foo'', None)]))
     \<lparr>attention_mask = None, token_type_ids = None, position_ids = None, head_mask = None,
      inputs_embeds = Some (Tensor [1, 2, 3] [0, 0, 0, 0, 0, 0])\<rparr> False
     \<noteq> Inl (ValueError ''You have to specify either input_ids or inputs_embeds'')"
  by (simp add: call_def normalize_inputs_def dict_len_def dict_get_def fcard_finsert_if
      fcard_fempty call_normalized_def input_shape_of_def shape_list_def get_extended_attention_mask_def
      newaxis_1_2_def tf_fill_def tf_cast_float32_def get_head_mask_def embed_and_project_def
      last_dim_def example_model_def TFElectraModel_init_def example_config_def
      example_embeddings_def example_encoder_def Dense_def numeral_2_eq_2)

subsection \<open>The head mask\<close>

lemma call_normalized_head_mask_fails:
  "head_mask f = Some h \<Longrightarrow> \<exists>e. call_normalized self f training = Inl e"
  by (auto simp: call_normalized_def Let_def get_head_mask_def split: sum.splits)

lemma call_normalized_head_mask:
  assumes "head_mask f = Some h" and "input_shape_of f = Inr s"
    and "get_extended_attention_mask
           (Some (case attention_mask f of None \<Rightarrow> tf_fill s 1 | Some m \<Rightarrow> m)) s = Inr ext"
  shows "call_normalized self f training = Inl NotImplementedError"
  using assms by (simp add: call_normalized_def Let_def get_head_mask_def)

text \<open>
  C6. \<open>get_head_mask\<close> raises NotImplementedError on every head mask that is not
  None, and turns an absent head mask into a list of None with one entry per configured
  encoder layer. In the Base Model, a call whose normalised head mask is not None never
  returns, and raises NotImplementedError once the input shape and the attention bias
  have been computed.
\<close>

theorem get_head_mask_spec:
  "get_head_mask cfg (Some h) = Inl NotImplementedError \<and>
   get_head_mask cfg None = Inr (replicate (num_hidden_layers cfg) None) \<and>
   (\<exists>hm. get_head_mask cfg None = Inr hm \<and> length hm = num_hidden_layers cfg \<and>
      list_all (\<lambda>x. x = None) hm) \<and>
   (normalize_inputs inputs kw = Inr f \<and> head_mask f = Some h \<longrightarrow>
      (\<exists>e. call self inputs kw training = Inl e)) \<and>
   (normalize_inputs inputs kw = Inr f \<and> head_mask f = Some h \<and> input_shape_of f = Inr s \<and>
    get_extended_attention_mask
      (Some (case attention_mask f of None \<Rightarrow> tf_fill s 1 | Some m \<Rightarrow> m)) s = Inr ext \<longrightarrow>
      call self inputs kw training = Inl NotImplementedError)"
  using call_normalized_head_mask_fails [of f h self training]
    call_normalized_head_mask [of f h s ext self training]
  by (auto simp: get_head_mask_def list_all_length call_def)

theorem get_head_mask_spec_witness:
  "get_head_mask example_config None = Inr [None, None] \<and>
   get_head_mask example_config (Some (Tensor [2] [1, 0])) = Inl NotImplementedError \<and>
   normalize_inputs (Positional [Some (Tensor [2, 2] [0, 1, 2, 3]), None, None, None,
       Some (Tensor [2] [1, 0])]) no_keywords
     = Inr \<lparr>attention_mask = None, token_type_ids = None, position_ids = None,
            head_mask = Some (Tensor [2] [1, 0]), inputs_embeds = None,
            input_ids = Some (Tensor [2, 2] [0, 1, 2, 3])\<rparr> \<and>
   call example_model (Positional [Some (Tensor [2, 2] [0, 1, 2, 3]), None, None, None,
       Some (Tensor [2] [1, 0])]) no_keywords False = Inl NotImplementedError"
  using get_head_mask_spec [where cfg = example_config and h = "Tensor [2] [1, 0]"
      and inputs = "Positional [Some (Tensor [2, 2] [0, 1, 2, 3]), None, None, None,
        Some (Tensor [2] [1, 0])]"
      and kw = no_keywords and self = example_model and training = False and s = "[2, 2]"
      and ext = "Tensor [2, 1, 1, 2] [0, 0, 0, 0]"
      and f = "\<lparr>attention_mask = None, token_type_ids = None, position_ids = None,
            head_mask = Some (Tensor [2] [1, 0]), inputs_embeds = None,
            input_ids = Some (Tensor [2, 2] [0, 1, 2, 3])\<rparr>"]
  by (simp add: example_config_def numeral_2_eq_2 normalize_inputs_def no_keywords_def
      input_shape_of_def shape_list_def get_extended_attention_mask_def newaxis_1_2_def
      tf_fill_def tf_cast_float32_def)

subsection \<open>Lines 198-201: the re-projection\<close>

lemma dense_call_shape:
  "length (shape x) \<ge> 2 \<Longrightarrow>
     \<exists>p. dense_call L x = Inr p \<and> shape p = butlast (shape x) @ [units L]"
  by (simp add: dense_call_def)

text \<open>
  Whatever the embedding layer returns, if it has rank 2 at least: it is projected by
  \<open>embeddings_project\<close> exactly when its last axis differs from the hidden width, and
  in a model built by \<open>TFElectraModel_init\<close> the hidden states handed to the encoder
  then have the hidden width as their last axis.
\<close>

lemma embed_and_project_projects:
  assumes "e = embeddings self (input_ids f) (position_ids f) tt (inputs_embeds f) training"
    and "length (shape e) \<ge> 2"
  shows "\<exists>p. embed_and_project self f tt training = Inr p \<and>
           (if last (shape e) \<noteq> hidden_size (config self)
            then dense_call (embeddings_project self) e = Inr p else p = e) \<and>
           (units (embeddings_project self) = hidden_size (config self) \<longrightarrow>
              shape p = butlast (shape e) @ [hidden_size (config self)])"
proof (cases "last (shape e) = hidden_size (config self)")
  case True
  have ne: "shape e \<noteq> []" using assms(2) by auto
  then have "butlast (shape e) @ [last (shape e)] = shape e" by simp
  with True ne assms(1) show ?thesis
    by (auto simp: embed_and_project_def last_dim_def Let_def split: list.splits)
next
  case False
  have ne: "shape e \<noteq> []" using assms(2) by auto
  from dense_call_shape [OF assms(2), of "embeddings_project self"]
  obtain p where "dense_call (embeddings_project self) e = Inr p"
    "shape p = butlast (shape e) @ [units (embeddings_project self)]" by blast
  with False ne assms(1) show ?thesis
    by (auto simp: embed_and_project_def last_dim_def Let_def split: list.splits)
qed

subsection \<open>Elements of the framework layers\<close>

lemma sum_list_upt: "sum_list (map f [0..<n]) = (\<Sum>i<n. f i)"
  by (induction n) simp_all

lemma sum_list_nth: "sum_list xs = (\<Sum>i<length xs. xs ! i)"
  by (simp add: sum_list_sum_nth atLeast0LessThan)

lemma concat_rows:
  assumes "\<forall>k<n. length (f k) = m"
  shows "length (concat (map f [0..<n])) = n * m \<and>
         (\<forall>k<n. \<forall>i<m. concat (map f [0..<n]) ! (k * m + i) = f k ! i)"
  using assms
proof (induction n)
  case 0
  then show ?case by simp
next
  case (Suc n)
  then have ih: "length (concat (map f [0..<n])) = n * m"
    "\<forall>k<n. \<forall>i<m. concat (map f [0..<n]) ! (k * m + i) = f k ! i"
    by simp_all
  have len: "length (f n) = m" using Suc.prems by simp
  have "concat (map f [0..<Suc n]) ! (k * m + i) = f k ! i" if "k < Suc n" "i < m" for k i
  proof (cases "k < n")
    case True
    then have "k * m + i < n * m"
      using that(2) offset_in_range [of k n i m] by simp
    then show ?thesis using ih True that(2) by (simp add: nth_append)
  next
    case False
    then have "k = n" using that(1) by simp
    then show ?thesis using ih(1) that(2) by (simp add: nth_append)
  qed
  then show ?case using ih(1) len by simp
qed

lemma row_length: "Suc k * d \<le> length xs \<Longrightarrow> length (row d xs k) = d"
  by (simp add: row_def)

lemma row_nth: "Suc k * d \<le> length xs \<Longrightarrow> j < d \<Longrightarrow> row d xs k ! j = xs ! (k * d + j)"
  by (simp add: row_def)

lemma row_in_range:
  fixes k n d :: nat
  assumes "k < n" "len = n * d"
  shows "Suc k * d \<le> len"
proof -
  have "Suc k \<le> n" using assms(1) by simp
  then have "Suc k * d \<le> n * d" by (rule mult_le_mono1)
  then show ?thesis using assms(2) by simp
qed

lemma row_sum:
  assumes "Suc k * d \<le> length xs"
  shows "sum_list (map g (row d xs k)) = (\<Sum>j<d. g (xs ! (k * d + j)))"
proof -
  have "sum_list (map g (row d xs k)) = (\<Sum>j<length (map g (row d xs k)). map g (row d xs k) ! j)"
    by (rule sum_list_nth)
  also have "\<dots> = (\<Sum>j<d. g (xs ! (k * d + j)))"
    using row_nth [OF assms] row_length [OF assms] by (intro sum.cong) simp_all
  finally show ?thesis .
qed

lemma dense_call_elements:
  assumes "shape x = dims @ [D]" "dims \<noteq> []" "length (data x) = prod_list dims * D"
  shows "\<exists>h. dense_call L x = Inr h \<and> shape h = dims @ [units L] \<and>
           length (data h) = prod_list dims * units L \<and>
           (\<forall>k<prod_list dims. \<forall>j<units L.
              data h ! (k * units L + j) =
                (\<Sum>i<D. data x ! (k * D + i) * kernel L i j) + bias L j)"
proof -
  let ?n = "prod_list dims"
  let ?f = "\<lambda>k. dense_row L (row D (data x) k)"
  have rank: "\<not> length (shape x) < 2"
    using assms(1,2) by (cases dims) simp_all
  have call: "dense_call L x = Inr (Tensor (dims @ [units L]) (concat (map ?f [0..<?n])))"
    using rank assms(1) by (simp add: dense_call_def)
  have len: "\<forall>k<?n. length (?f k) = units L"
    by (simp add: dense_row_def)
  have inr: "Suc k * D \<le> length (data x)" if "k < ?n" for k
    using that assms(3) by (rule row_in_range)
  have el: "?f k ! j = (\<Sum>i<D. data x ! (k * D + i) * kernel L i j) + bias L j"
    if "k < ?n" "j < units L" for k j
  proof -
    have r: "length (row D (data x) k) = D"
      "\<And>i. i < D \<Longrightarrow> row D (data x) k ! i = data x ! (k * D + i)"
      using row_nth [OF inr [OF that(1)]] row_length [OF inr [OF that(1)]] by simp_all
    have "?f k ! j = (\<Sum>i<D. row D (data x) k ! i * kernel L i j) + bias L j"
      using that(2) r(1) by (simp add: dense_row_def sum_list_upt)
    also have "(\<Sum>i<D. row D (data x) k ! i * kernel L i j)
        = (\<Sum>i<D. data x ! (k * D + i) * kernel L i j)"
      using r(2) by (intro sum.cong) simp_all
    finally show ?thesis .
  qed
  from concat_rows [OF len] el call show ?thesis by simp
qed

lemma layer_norm_call_elements:
  assumes "shape a = dims @ [E]" "length (data a) = prod_list dims * E"
  shows "\<exists>y. layer_norm_call L a = Inr y \<and> shape y = dims @ [E] \<and>
           length (data y) = prod_list dims * E \<and>
           (\<forall>k<prod_list dims. \<forall>i<E.
              data y ! (k * E + i) =
                (let \<mu> = (\<Sum>j<E. data a ! (k * E + j)) / real E;
                     v = (\<Sum>j<E. (data a ! (k * E + j) - \<mu>)\<^sup>2) / real E
                 in (data a ! (k * E + i) - \<mu>) / sqrt (v + epsilon L) * gamma L i + beta L i))"
proof -
  let ?n = "prod_list dims"
  let ?f = "\<lambda>k. layer_norm_row L (row E (data a) k)"
  have call: "layer_norm_call L a = Inr (Tensor (dims @ [E]) (concat (map ?f [0..<?n])))"
    using assms(1) by (simp add: layer_norm_call_def)
  have inr: "Suc k * E \<le> length (data a)" if "k < ?n" for k
    using that assms(2) by (rule row_in_range)
  have len: "\<forall>k<?n. length (?f k) = E"
    using row_length [OF inr] by (simp add: layer_norm_row_def Let_def)
  have el: "?f k ! i =
      (let \<mu> = (\<Sum>j<E. data a ! (k * E + j)) / real E;
           v = (\<Sum>j<E. (data a ! (k * E + j) - \<mu>)\<^sup>2) / real E
       in (data a ! (k * E + i) - \<mu>) / sqrt (v + epsilon L) * gamma L i + beta L i)"
    if "k < ?n" "i < E" for k i
  proof -
    note r = row_length [OF inr [OF that(1)]] row_nth [OF inr [OF that(1)]]
    have m: "mean (row E (data a) k) = (\<Sum>j<E. data a ! (k * E + j)) / real E"
      using row_sum [OF inr [OF that(1)], of "\<lambda>x. x"] r(1) by (simp add: mean_def)
    have v: "mean (map (\<lambda>x. (x - c)\<^sup>2) (row E (data a) k))
        = (\<Sum>j<E. (data a ! (k * E + j) - c)\<^sup>2) / real E" for c
      using row_sum [OF inr [OF that(1)], of "\<lambda>x. (x - c)\<^sup>2"] r(1) by (simp add: mean_def)
    show ?thesis
      using that(2) r by (simp add: layer_norm_row_def Let_def m v)
  qed
  from concat_rows [OF len] el call show ?thesis by simp
qed

subsection \<open>The heads\<close>

lemma upt_2: "[0..<2] = [0, 1]"
  by (simp add: upt_rec)

lemma upt_3: "[0..<3] = [0, 1, 2]"
  by (simp add: upt_rec)

lemma upt_4: "[0..<4] = [0, 1, 2, 3]"
  by (simp add: upt_rec)

lemma replicate_4: "replicate 4 x = [x, x, x, x]"
  by (simp add: eval_nat_numeral)

lemma sqrt_25: "sqrt 25 = 5"
  by (rule real_sqrt_unique) simp_all

text \<open>
  On hidden states of shape [batch, seq, hidden] the discriminator head returns logits
  whose shape is [batch, seq] with every axis of size 1 removed.
\<close>

lemma discriminator_forward_shape:
  assumes "shape x = [batch, seq, h]" and "ACT2FN (hidden_act cfg) = Some act"
  shows "\<exists>y. discriminator_forward ACT2FN
                (TFElectraDiscriminatorPredictions_init cfg w1 b1 w2 b2) x am = Inr y \<and>
              shape y = filter (\<lambda>d. d \<noteq> 1) [batch, seq]"
  using assms
  by (simp add: discriminator_forward_def TFElectraDiscriminatorPredictions_init_def
      dense_call_def Dense_def tensor_map_def tf_squeeze_def)

lemma discriminator_forward_shape_no_singleton:
  assumes "shape x = [batch, seq, h]" and "ACT2FN (hidden_act cfg) = Some act"
    and "batch \<noteq> 1" and "seq \<noteq> 1"
  shows "\<exists>y. discriminator_forward ACT2FN
                (TFElectraDiscriminatorPredictions_init cfg w1 b1 w2 b2) x am = Inr y \<and>
              shape y = [batch, seq]"
  using discriminator_forward_shape [where x = x and batch = batch and seq = seq and h = h
      and ACT2FN = ACT2FN and cfg = cfg and act = act and ?w1.0 = w1 and ?b1.0 = b1
      and ?w2.0 = w2 and ?b2.0 = b2 and am = am] assms by simp

text \<open>
  C4. The discriminator head on hidden states of shape [1, 2, 3] (batch 1, two tokens):
  the logits have shape [2], not [1, 2]; \<open>tf.squeeze\<close> without an axis removes the
  batch axis together with the trailing one.
\<close>

theorem discriminator_forward_batch_of_one:
  "discriminator_forward example_ACT2FN example_discriminator_predictions
     (Tensor [1, 2, 3] [1, 2, 3, 4, 5, 6]) None = Inr (Tensor [2] [18, 45]) \<and>
   shape (Tensor [2] [18, 45]) \<noteq> [1, 2]"
  by (simp add: discriminator_forward_def example_discriminator_predictions_def
      TFElectraDiscriminatorPredictions_init_def dense_call_def Dense_def dense_row_def row_def
      example_config_def example_ACT2FN_def tensor_map_def tf_squeeze_def upt_2 upt_3)

text \<open>
  C8. The generator head on an input of rank 2 at least returns a tensor whose last axis
  has size embedding_size and whose element \<open>i\<close> of row \<open>k\<close> is the layer
  normalisation (mean and variance over the row, epsilon, gamma, beta) of the function
  stored under the fixed name gelu applied to the dense transform of row \<open>k\<close> of the
  input; on an input of smaller rank the dense layer raises; whenever the head returns,
  the last axis has size embedding_size; the head does not depend on the configured
  activation or hidden width.
\<close>

theorem generator_forward_spec:
  "(shape x = dims @ [D] \<and> dims \<noteq> [] \<and> length (data x) = prod_list dims * D \<and>
    ACT2FN ''gelu'' = Some gelu \<longrightarrow>
      (\<exists>y. generator_forward ACT2FN (TFElectraGeneratorPredictions_init cfg g be w b) x = Inr y \<and>
         shape y = dims @ [embedding_size cfg] \<and>
         length (data y) = prod_list dims * embedding_size cfg \<and>
         (\<forall>k<prod_list dims. \<forall>i<embedding_size cfg.
            data y ! (k * embedding_size cfg + i) =
              (let a = (\<lambda>j. gelu ((\<Sum>d<D. data x ! (k * D + d) * w d j) + b j));
                   \<mu> = (\<Sum>j<embedding_size cfg. a j) / real (embedding_size cfg);
                   v = (\<Sum>j<embedding_size cfg. (a j - \<mu>)\<^sup>2) / real (embedding_size cfg)
               in (a i - \<mu>) / sqrt (v + layer_norm_eps cfg) * g i + be i)))) \<and>
   (length (shape x) < 2 \<longrightarrow>
      generator_forward ACT2FN (TFElectraGeneratorPredictions_init cfg g be w b) x
        = Inl (ValueError ''expected min_ndim=2'')) \<and>
   (generator_forward ACT2FN (TFElectraGeneratorPredictions_init cfg g be w b) x = Inr y' \<longrightarrow>
      last (shape y') = embedding_size cfg) \<and>
   TFElectraGeneratorPredictions_init (cfg\<lparr>hidden_size := hs, hidden_act := act\<rparr>) g be w b
     = TFElectraGeneratorPredictions_init cfg g be w b"
proof (intro conjI impI)
  let ?E = "embedding_size cfg"
  let ?n = "prod_list dims"
  let ?G = "TFElectraGeneratorPredictions_init cfg g be w b"
  assume a: "shape x = dims @ [D] \<and> dims \<noteq> [] \<and> length (data x) = prod_list dims * D \<and>
    ACT2FN ''gelu'' = Some gelu"
  from dense_call_elements [of x dims D "Dense ?E w b"] a
  obtain h where h: "dense_call (Dense ?E w b) x = Inr h" "shape h = dims @ [?E]"
    "length (data h) = ?n * ?E"
    and hel: "\<And>k j. k < ?n \<Longrightarrow> j < ?E \<Longrightarrow>
      data h ! (k * ?E + j) = (\<Sum>d<D. data x ! (k * D + d) * w d j) + b j"
    by (auto simp: Dense_def)
  let ?a = "tensor_map gelu h"
  have sa: "shape ?a = dims @ [?E]" "length (data ?a) = ?n * ?E"
    using h(2,3) by (simp_all add: tensor_map_def)
  have ael: "data ?a ! (k * ?E + j) = gelu ((\<Sum>d<D. data x ! (k * D + d) * w d j) + b j)"
    if "k < ?n" "j < ?E" for k j
  proof -
    have "k * ?E + j < length (data h)"
      using offset_in_range [OF that] h(3) by simp
    then show ?thesis using hel [OF that] by (simp add: tensor_map_def)
  qed
  from layer_norm_call_elements [OF sa, of "LayerNormalization (layer_norm_eps cfg) g be"]
  obtain y where y: "layer_norm_call (LayerNormalization (layer_norm_eps cfg) g be) ?a = Inr y"
    "shape y = dims @ [?E]" "length (data y) = ?n * ?E"
    and yel: "\<And>k i. k < ?n \<Longrightarrow> i < ?E \<Longrightarrow> data y ! (k * ?E + i) =
      (let \<mu> = (\<Sum>j<?E. data ?a ! (k * ?E + j)) / real ?E;
           v = (\<Sum>j<?E. (data ?a ! (k * ?E + j) - \<mu>)\<^sup>2) / real ?E
       in (data ?a ! (k * ?E + i) - \<mu>) / sqrt (v + layer_norm_eps cfg) * g i + be i)"
    by (auto simp: LayerNormalization_def)
  have fw: "generator_forward ACT2FN ?G x = Inr y"
    using a h(1) y(1) by (simp add: generator_forward_def TFElectraGeneratorPredictions_init_def)
  have el: "data y ! (k * ?E + i) =
      (let a = (\<lambda>j. gelu ((\<Sum>d<D. data x ! (k * D + d) * w d j) + b j));
           \<mu> = (\<Sum>j<?E. a j) / real ?E;
           v = (\<Sum>j<?E. (a j - \<mu>)\<^sup>2) / real ?E
       in (a i - \<mu>) / sqrt (v + layer_norm_eps cfg) * g i + be i)"
    if "k < ?n" "i < ?E" for k i
  proof -
    have s1: "(\<Sum>j<?E. data ?a ! (k * ?E + j))
        = (\<Sum>j<?E. gelu ((\<Sum>d<D. data x ! (k * D + d) * w d j) + b j))"
      using ael [OF that(1)] by (intro sum.cong) simp_all
    have s2: "(\<Sum>j<?E. (data ?a ! (k * ?E + j) - c)\<^sup>2)
        = (\<Sum>j<?E. (gelu ((\<Sum>d<D. data x ! (k * D + d) * w d j) + b j) - c)\<^sup>2)" for c
      using ael [OF that(1)] by (intro sum.cong) simp_all
    show ?thesis
      unfolding yel [OF that] Let_def s1 s2 ael [OF that] ..
  qed
  from fw y(2,3) el
  show "\<exists>y. generator_forward ACT2FN ?G x = Inr y \<and>
         shape y = dims @ [?E] \<and> length (data y) = ?n * ?E \<and>
         (\<forall>k<?n. \<forall>i<?E.
            data y ! (k * ?E + i) =
              (let a = (\<lambda>j. gelu ((\<Sum>d<D. data x ! (k * D + d) * w d j) + b j));
                   \<mu> = (\<Sum>j<?E. a j) / real ?E;
                   v = (\<Sum>j<?E. (a j - \<mu>)\<^sup>2) / real ?E
               in (a i - \<mu>) / sqrt (v + layer_norm_eps cfg) * g i + be i))"
    by blast
next
  assume "length (shape x) < 2"
  then show "generator_forward ACT2FN (TFElectraGeneratorPredictions_init cfg g be w b) x
        = Inl (ValueError ''expected min_ndim=2'')"
    by (simp add: generator_forward_def TFElectraGeneratorPredictions_init_def dense_call_def)
next
  assume "generator_forward ACT2FN (TFElectraGeneratorPredictions_init cfg g be w b) x = Inr y'"
  then show "last (shape y') = embedding_size cfg"
    by (auto simp: generator_forward_def TFElectraGeneratorPredictions_init_def dense_call_def
        layer_norm_call_def tensor_map_def Dense_def split: sum.splits option.splits if_splits)
next
  show "TFElectraGeneratorPredictions_init (cfg\<lparr>hidden_size := hs, hidden_act := act\<rparr>) g be w b
     = TFElectraGeneratorPredictions_init cfg g be w b"
    by (simp add: TFElectraGeneratorPredictions_init_def)
qed

text \<open>
  The head on two rows, with the identity kernel, bias [0, 2], epsilon 16, gamma 5 and
  beta 1: the dense rows are [1, 4] and [5, 2], doubled under the name gelu to [2, 8] and
  [10, 4]; each row has variance 9, so the normalised rows are [-2, 4] and [4, -2].
\<close>

lemma probe_head:
  "generator_forward probe_ACT2FN
     (TFElectraGeneratorPredictions_init (example_config\<lparr>layer_norm_eps := 16\<rparr>)
        (\<lambda>i. 5) (\<lambda>i. 1) (\<lambda>i j. if i = j then 1 else 0) (\<lambda>j. if j = 1 then 2 else 0))
     (Tensor [1, 2, 3] [1, 2, 3, 5, 0, 7]) = Inr (Tensor [1, 2, 2] [- 2, 4, 4, - 2])"
  by (simp add: probe_ACT2FN_def generator_forward_def TFElectraGeneratorPredictions_init_def
      dense_call_def Dense_def dense_row_def row_def layer_norm_call_def LayerNormalization_def
      layer_norm_row_def mean_def tensor_map_def example_config_def upt_2 upt_3 sqrt_25)

theorem generator_forward_spec_witness:
  "shape (Tensor [1, 2, 3] [1, 2, 3, 5, 0, 7]) = [1, 2] @ [3] \<and> [1, 2 :: nat] \<noteq> [] \<and>
   length (data (Tensor [1, 2, 3] [1, 2, 3, 5, 0, 7])) = prod_list [1, 2] * 3 \<and>
   probe_ACT2FN ''gelu'' = Some (\<lambda>x. 2 * x) \<and>
   hidden_act (example_config\<lparr>layer_norm_eps := 16\<rparr>) = ''relu'' \<and>
   generator_forward probe_ACT2FN
     (TFElectraGeneratorPredictions_init (example_config\<lparr>layer_norm_eps := 16\<rparr>)
        (\<lambda>i. 5) (\<lambda>i. 1) (\<lambda>i j. if i = j then 1 else 0) (\<lambda>j. if j = 1 then 2 else 0))
     (Tensor [1, 2, 3] [1, 2, 3, 5, 0, 7]) = Inr (Tensor [1, 2, 2] [- 2, 4, 4, - 2])"
  using generator_forward_spec [where x = "Tensor [1, 2, 3] [1, 2, 3, 5, 0, 7]"
      and dims = "[1, 2]" and D = 3 and ACT2FN = probe_ACT2FN and gelu = "\<lambda>x. 2 * x"
      and cfg = "example_config\<lparr>layer_norm_eps := 16\<rparr>"
      and g = "\<lambda>i. 5" and be = "\<lambda>i. 1" and w = "\<lambda>i j. if i = j then 1 else 0"
      and b = "\<lambda>j. if j = 1 then 2 else 0"]
    probe_head
  by (simp add: probe_ACT2FN_def example_config_def)

subsection \<open>The task models\<close>

text \<open>
  Each task model returns exactly when the Base Model returns a non-empty tuple (and, for
  the masked-LM and token-classification models, the projection or classifier succeeds on
  its first element); the remaining elements of the Base Model's tuple follow unchanged.
  The pretraining model returns the Base Model's tuple itself.
\<close>

lemma task_models_outputs:
  "(masked_lm_call mlm inputs kw training = Inr res1 \<longleftrightarrow>
      (\<exists>h aux t. call (generator mlm) inputs kw training = Inr (h # aux) \<and>
         embeddings_linear (generator_lm_head mlm) h = Inr t \<and> res1 = t # aux)) \<and>
   (pretraining_call pt inputs kw training = Inr res2 \<longleftrightarrow>
      (\<exists>h aux. call (pt_discriminator pt) inputs kw training = Inr (h # aux) \<and>
         res2 = h # aux)) \<and>
   (token_classification_call tc inputs kw training = Inr res3 \<longleftrightarrow>
      (\<exists>h aux t. call (tc_discriminator tc) inputs kw training = Inr (h # aux) \<and>
         dense_call (tc_classifier tc) (tc_dropout tc h) = Inr t \<and> res3 = t # aux))"
proof (intro conjI)
  show "masked_lm_call mlm inputs kw training = Inr res1 \<longleftrightarrow>
      (\<exists>h aux t. call (generator mlm) inputs kw training = Inr (h # aux) \<and>
         embeddings_linear (generator_lm_head mlm) h = Inr t \<and> res1 = t # aux)"
    by (auto simp: masked_lm_call_def generator_predictions_call_def Layer_call_def
        split: sum.splits list.splits)
  show "pretraining_call pt inputs kw training = Inr res2 \<longleftrightarrow>
      (\<exists>h aux. call (pt_discriminator pt) inputs kw training = Inr (h # aux) \<and>
         res2 = h # aux)"
    by (auto simp: pretraining_call_def discriminator_predictions_call_def Layer_call_def
        split: sum.splits list.splits)
  show "token_classification_call tc inputs kw training = Inr res3 \<longleftrightarrow>
      (\<exists>h aux t. call (tc_discriminator tc) inputs kw training = Inr (h # aux) \<and>
         dense_call (tc_classifier tc) (tc_dropout tc h) = Inr t \<and> res3 = t # aux)"
    by (auto simp: token_classification_call_def split: sum.splits list.splits)
qed

text \<open>The example instance on token ids [[0, 1], [2, 3]].\<close>

lemma equal_width_embed:
  "embed_and_project equal_width_model
     \<lparr>attention_mask = None, token_type_ids = None, position_ids = None, head_mask = None,
      inputs_embeds = None, input_ids = Some (Tensor [2, 2] [0, 1, 2, 3])\<rparr> tt False
     = Inr (Tensor [2, 2, 2] [0, 1, 1, 2, 2, 3, 3, 4])"
  by (simp add: embed_and_project_def last_dim_def equal_width_model_def
      TFElectraModel_init_def equal_width_config_def token_table_embeddings_def)

lemma equal_width_call:
  "call equal_width_model (Bare (Some (Tensor [2, 2] [0, 1, 2, 3]))) no_keywords False
     = Inr [Tensor [2, 2, 2] [0, 1, 1, 2, 2, 3, 3, 4], Tensor [2, 1, 1, 2] [0, 0, 0, 0]]"
proof -
  have enc: "encoder equal_width_model h m hm tr = [h, m]" for h m hm tr
    by (simp add: equal_width_model_def TFElectraModel_init_def example_encoder_def)
  show ?thesis
    by (simp add: call_def normalize_inputs_def no_keywords_def call_normalized_def
        input_shape_of_def shape_list_def get_extended_attention_mask_def newaxis_1_2_def
        tf_fill_def tf_cast_float32_def get_head_mask_def equal_width_embed replicate_4 enc)
qed

lemma example_generator_head:
  "generator_forward example_ACT2FN (generator_predictions example_masked_lm)
     (Tensor [2, 2, 2] [0, 1, 1, 2, 2, 3, 3, 4])
     = Inr (Tensor [2, 2, 2] [1, 1, 1, 1, 1, 1, 1, 1])"
  by (simp add: example_masked_lm_def example_ACT2FN_def generator_forward_def
      TFElectraGeneratorPredictions_init_def dense_call_def Dense_def dense_row_def row_def
      layer_norm_call_def LayerNormalization_def layer_norm_row_def mean_def tensor_map_def
      equal_width_config_def gelu_tanh_def upt_2 upt_4)

lemma example_projection_of_sequence_output:
  "embeddings_linear (generator_lm_head example_masked_lm)
     (Tensor [2, 2, 2] [0, 1, 1, 2, 2, 3, 3, 4])
     = Inr (Tensor [2, 2, 4] [1, 2, 3, 4, 3, 6, 9, 12, 5, 10, 15, 20, 7, 14, 21, 28])"
  by (simp add: embeddings_linear_def example_masked_lm_def dense_call_def Dense_def
      dense_row_def row_def upt_2 upt_4)

lemma example_projection_of_head_output:
  "embeddings_linear (generator_lm_head example_masked_lm)
     (Tensor [2, 2, 2] [1, 1, 1, 1, 1, 1, 1, 1])
     = Inr (Tensor [2, 2, 4] [2, 4, 6, 8, 2, 4, 6, 8, 2, 4, 6, 8, 2, 4, 6, 8])"
  by (simp add: embeddings_linear_def example_masked_lm_def dense_call_def Dense_def
      dense_row_def row_def upt_2 upt_4)

lemma example_spec_scores:
  "spec_prediction_scores example_ACT2FN example_masked_lm
     (Tensor [2, 2, 2] [0, 1, 1, 2, 2, 3, 3, 4])
     = Inr (Tensor [2, 2, 4] [3, 5, 7, 9, 3, 5, 7, 9, 3, 5, 7, 9, 3, 5, 7, 9])"
proof -
  have b: "generator_lm_head_bias example_masked_lm = (\<lambda>v. 1)"
    by (simp add: example_masked_lm_def)
  have u: "[0..<16] = [0, 1, 2, 3, 4, 5, 6, 7, 8, 9, 10, 11, 12, 13, 14, 15]"
    by (simp add: upt_rec)
  show ?thesis
    by (simp add: spec_prediction_scores_def example_generator_head
        example_projection_of_head_output add_bias_def b u)
qed

lemma example_discriminator_head:
  "discriminator_forward example_ACT2FN (pt_discriminator_predictions example_pretraining)
     (Tensor [2, 2, 2] [0, 1, 1, 2, 2, 3, 3, 4]) am
     = Inr (Tensor [2, 2] [2, 6, 10, 14])"
  by (simp add: discriminator_forward_def example_pretraining_def
      TFElectraDiscriminatorPredictions_init_def dense_call_def Dense_def dense_row_def row_def
      equal_width_config_def example_ACT2FN_def tensor_map_def tf_squeeze_def upt_2 upt_4)

lemma example_classifier:
  "dense_call (tc_classifier example_token_classification)
     (tc_dropout example_token_classification (Tensor [2, 2, 2] [0, 1, 1, 2, 2, 3, 3, 4]))
     = Inr (Tensor [2, 2, 2] [2, 2, 4, 4, 6, 6, 8, 8])"
  by (simp add: example_token_classification_def dense_call_def Dense_def dense_row_def row_def
      equal_width_config_def upt_2 upt_4)

text \<open>
  C5. The masked-LM model on the example instance, whose bias weight holds ones. The
  Base Model's sequence output is [[0, 1], [1, 2]], [[2, 3], [3, 4]]; the first output
  of the model is the tied projection of that sequence output itself, [1, 2, 3, 4] for
  the first token. The Generator Head's \<open>forward\<close> on the sequence output gives
  [1, 1] for every token, whose projection is [2, 4, 6, 8] and, with the bias,
  [3, 5, 7, 9]: \<open>call\<close> neither runs the head's \<open>forward\<close> nor adds
  \<open>generator_lm_head_bias\<close>.
\<close>

theorem masked_lm_call_omits_head_and_bias:
  "call equal_width_model (Bare (Some (Tensor [2, 2] [0, 1, 2, 3]))) no_keywords False
     = Inr [Tensor [2, 2, 2] [0, 1, 1, 2, 2, 3, 3, 4], Tensor [2, 1, 1, 2] [0, 0, 0, 0]] \<and>
   masked_lm_call example_masked_lm (Bare (Some (Tensor [2, 2] [0, 1, 2, 3]))) no_keywords False
     = Inr [Tensor [2, 2, 4] [1, 2, 3, 4, 3, 6, 9, 12, 5, 10, 15, 20, 7, 14, 21, 28],
            Tensor [2, 1, 1, 2] [0, 0, 0, 0]] \<and>
   embeddings_linear (generator_lm_head example_masked_lm)
     (Tensor [2, 2, 2] [0, 1, 1, 2, 2, 3, 3, 4])
     = Inr (Tensor [2, 2, 4] [1, 2, 3, 4, 3, 6, 9, 12, 5, 10, 15, 20, 7, 14, 21, 28]) \<and>
   generator_forward example_ACT2FN (generator_predictions example_masked_lm)
     (Tensor [2, 2, 2] [0, 1, 1, 2, 2, 3, 3, 4])
     = Inr (Tensor [2, 2, 2] [1, 1, 1, 1, 1, 1, 1, 1]) \<and>
   embeddings_linear (generator_lm_head example_masked_lm)
     (Tensor [2, 2, 2] [1, 1, 1, 1, 1, 1, 1, 1])
     = Inr (Tensor [2, 2, 4] [2, 4, 6, 8, 2, 4, 6, 8, 2, 4, 6, 8, 2, 4, 6, 8]) \<and>
   spec_prediction_scores example_ACT2FN example_masked_lm
     (Tensor [2, 2, 2] [0, 1, 1, 2, 2, 3, 3, 4])
     = Inr (Tensor [2, 2, 4] [3, 5, 7, 9, 3, 5, 7, 9, 3, 5, 7, 9, 3, 5, 7, 9])"
proof -
  have g: "generator example_masked_lm = equal_width_model"
    by (simp add: example_masked_lm_def)
  have m: "masked_lm_call example_masked_lm (Bare (Some (Tensor [2, 2] [0, 1, 2, 3])))
      no_keywords False
     = Inr [Tensor [2, 2, 4] [1, 2, 3, 4, 3, 6, 9, 12, 5, 10, 15, 20, 7, 14, 21, 28],
            Tensor [2, 1, 1, 2] [0, 0, 0, 0]]"
    by (simp add: masked_lm_call_def g equal_width_call generator_predictions_call_def
        Layer_call_def example_projection_of_sequence_output)
  from m equal_width_call example_projection_of_sequence_output example_generator_head
    example_projection_of_head_output example_spec_scores
  show ?thesis by (intro conjI)
qed

text \<open>
  C9. The three task models on the example instance. The pretraining model returns the
  Base Model's tuple unchanged: its first element is the sequence output of shape
  [2, 2, 2], not the logits [2, 6, 10, 14] of shape [2, 2] that the discriminator head's
  \<open>forward\<close> computes from it. The token-classification model returns the classifier's
  logits first. In all three the second element is the Base Model's second element.
\<close>

theorem pretraining_call_returns_sequence_output:
  "call equal_width_model (Bare (Some (Tensor [2, 2] [0, 1, 2, 3]))) no_keywords False
     = Inr [Tensor [2, 2, 2] [0, 1, 1, 2, 2, 3, 3, 4], Tensor [2, 1, 1, 2] [0, 0, 0, 0]] \<and>
   pretraining_call example_pretraining (Bare (Some (Tensor [2, 2] [0, 1, 2, 3]))) no_keywords False
     = Inr [Tensor [2, 2, 2] [0, 1, 1, 2, 2, 3, 3, 4], Tensor [2, 1, 1, 2] [0, 0, 0, 0]] \<and>
   discriminator_forward example_ACT2FN (pt_discriminator_predictions example_pretraining)
     (Tensor [2, 2, 2] [0, 1, 1, 2, 2, 3, 3, 4]) None
     = Inr (Tensor [2, 2] [2, 6, 10, 14]) \<and>
   token_classification_call example_token_classification
     (Bare (Some (Tensor [2, 2] [0, 1, 2, 3]))) no_keywords False
     = Inr [Tensor [2, 2, 2] [2, 2, 4, 4, 6, 6, 8, 8], Tensor [2, 1, 1, 2] [0, 0, 0, 0]]"
proof -
  have d: "pt_discriminator example_pretraining = equal_width_model"
    "tc_discriminator example_token_classification = equal_width_model"
    by (simp_all add: example_pretraining_def example_token_classification_def)
  have p: "pretraining_call example_pretraining (Bare (Some (Tensor [2, 2] [0, 1, 2, 3])))
      no_keywords False
     = Inr [Tensor [2, 2, 2] [0, 1, 1, 2, 2, 3, 3, 4], Tensor [2, 1, 1, 2] [0, 0, 0, 0]]"
    by (simp add: pretraining_call_def d equal_width_call discriminator_predictions_call_def
        Layer_call_def)
  have t: "token_classification_call example_token_classification
      (Bare (Some (Tensor [2, 2] [0, 1, 2, 3]))) no_keywords False
     = Inr [Tensor [2, 2, 2] [2, 2, 4, 4, 6, 6, 8, 8], Tensor [2, 1, 1, 2] [0, 0, 0, 0]]"
    by (simp add: token_classification_call_def d equal_width_call example_classifier)
  from equal_width_call p example_discriminator_head [of None] t
  show ?thesis by (intro conjI)
qed

end
